theory Spec2Isabelle
  imports Complex_Main "HOL-Library.AList"
begin

section \<open>Text primitives of the Python runtime\<close>

text \<open>
  A line of the serial port is modelled as the text that
  \<^verbatim>\<open>ser.readline().decode('utf-8')\<close> yields. A \<^typ>\<open>char\<close> stands for one code point
  below 256 (the meter speaks ASCII), read through \<^const>\<open>of_char\<close>.
\<close>

definition isspace :: "char \<Rightarrow> bool" where
  \<comment> \<open>\<^verbatim>\<open>str.isspace\<close> on code points below 256: 9..13, 28..32, 133 and 160.\<close>
  "isspace c = (let n = (of_char c :: nat)
                in (9 \<le> n \<and> n \<le> 13) \<or> (28 \<le> n \<and> n \<le> 32) \<or> n = 133 \<or> n = 160)"

definition strip :: "string \<Rightarrow> string" where
  \<comment> \<open>\<^verbatim>\<open>str.strip()\<close>: leading and trailing whitespace removed.\<close>
  "strip s = rev (dropWhile isspace (rev (dropWhile isspace s)))"

definition startswith :: "string \<Rightarrow> string \<Rightarrow> bool" where
  "startswith s p = (take (length p) s = p)"

definition isdigit :: "char \<Rightarrow> bool" where
  \<comment> \<open>The class \<^verbatim>\<open>\d\<close> of \<^verbatim>\<open>re\<close> on code points below 256: the ten ASCII digits.\<close>
  "isdigit c = (48 \<le> (of_char c :: nat) \<and> (of_char c :: nat) \<le> 57)"

definition digit_val :: "char \<Rightarrow> nat" where
  "digit_val c = of_char c - 48"

definition digit_char :: "nat \<Rightarrow> char" where
  \<comment> \<open>Only ever applied to a number below ten.\<close>
  "digit_char d = ''0123456789'' ! d"

definition int_str :: "string \<Rightarrow> nat" where
  \<comment> \<open>\<^verbatim>\<open>int(x)\<close> for a text of decimal digits (leading zeros allowed).\<close>
  "int_str s = foldl (\<lambda>a c. 10 * a + digit_val c) 0 s"

fun str_int :: "nat \<Rightarrow> string" where
  \<comment> \<open>\<^verbatim>\<open>str(n)\<close> for a non-negative integer.\<close>
  "str_int n = (if n < 10 then [digit_char n] else str_int (n div 10) @ [digit_char (n mod 10)])"

declare str_int.simps [simp del]

definition join :: "string \<Rightarrow> string list \<Rightarrow> string" where
  \<comment> \<open>\<^verbatim>\<open>sep.join(xs)\<close>\<close>
  "join sep xs = (case xs of [] \<Rightarrow> [] | x # r \<Rightarrow> x @ concat (map (\<lambda>y. sep @ y) r))"

section \<open>The two regular expressions\<close>

text \<open>
  \<^verbatim>\<open>tel_id_re = re.compile(r'(\d+)-(\d+):(\d+)\.(\d+)\.(\d+)')\<close>.
  Each \<^verbatim>\<open>\d+\<close> is greedy and is followed by a character that is no digit, so at a given
  start there is one way to match at most: giving digits back never helps.
  \<^verbatim>\<open>search\<close> tries the start positions from left to right.
\<close>

definition re_digits_sep :: "char \<Rightarrow> string \<Rightarrow> (string \<times> string) option" where
  \<comment> \<open>\<^verbatim>\<open>(\d+)\<close> followed by the literal \<open>sep\<close>: the group and the text after \<open>sep\<close>.\<close>
  "re_digits_sep sep s =
     (case dropWhile isdigit s of
        [] \<Rightarrow> None
      | c # r \<Rightarrow> if takeWhile isdigit s \<noteq> [] \<and> c = sep
                then Some (takeWhile isdigit s, r) else None)"

definition tel_id_re_match :: "string \<Rightarrow> (string \<times> string \<times> string \<times> string \<times> string) option" where
  "tel_id_re_match s =
     (case re_digits_sep (CHR ''-'') s of None \<Rightarrow> None | Some (a, r1) \<Rightarrow>
     (case re_digits_sep (CHR '':'') r1 of None \<Rightarrow> None | Some (b, r2) \<Rightarrow>
     (case re_digits_sep (CHR ''.'') r2 of None \<Rightarrow> None | Some (c, r3) \<Rightarrow>
     (case re_digits_sep (CHR ''.'') r3 of None \<Rightarrow> None | Some (d, r4) \<Rightarrow>
        if takeWhile isdigit r4 = [] then None
        else Some (a, b, c, d, takeWhile isdigit r4)))))"

fun tel_id_re_search :: "string \<Rightarrow> (string \<times> string \<times> string \<times> string \<times> string) option" where
  "tel_id_re_search [] = None"
| "tel_id_re_search (x # xs) =
     (case tel_id_re_match (x # xs) of
        Some g \<Rightarrow> Some g
      | None \<Rightarrow> tel_id_re_search xs)"

declare tel_id_re_search.simps [simp del]

definition group0 :: "string \<times> string \<times> string \<times> string \<times> string \<Rightarrow> string" where
  \<comment> \<open>\<^verbatim>\<open>drm4_id[0]\<close>, the matched text.\<close>
  "group0 g = (case g of (a, b, c, d, e) \<Rightarrow> a @ ''-'' @ b @ '':'' @ c @ ''.'' @ d @ ''.'' @ e)"

text \<open>
  \<^verbatim>\<open>tel_content_re_extra = re.compile(r'\(([\d.]*)[^)]*\)\(?([\d.]+)?')\<close>.
  A match starts at the first \<^verbatim>\<open>(\<close> and needs a \<^verbatim>\<open>)\<close> after it (when the first
  \<^verbatim>\<open>(\<close> has none, no later one has). Group 1 is the longest run of digits and dots
  after the \<^verbatim>\<open>(\<close>, possibly empty; the rest up to the first \<^verbatim>\<open>)\<close> is skipped; an
  optional \<^verbatim>\<open>(\<close> is skipped; group 2 is the longest run of digits and dots there,
  and does not take part when that run is empty. Everything after the \<^verbatim>\<open>)\<close> is
  optional, so the greedy first attempt succeeds and nothing is given back.
\<close>

definition isdigitdot :: "char \<Rightarrow> bool" where
  "isdigitdot c = (isdigit c \<or> c = CHR ''.'')"

definition tel_content_re_extra_search :: "string \<Rightarrow> (string \<times> string option) option" where
  "tel_content_re_extra_search s =
     (case dropWhile (\<lambda>c. c \<noteq> CHR ''('') s of
        [] \<Rightarrow> None
      | _ # r \<Rightarrow>
          (case dropWhile (\<lambda>c. c \<noteq> CHR '')'') r of
             [] \<Rightarrow> None
           | _ # r2 \<Rightarrow>
               (let r3 = (case r2 of [] \<Rightarrow> r2 | c # t \<Rightarrow> if c = CHR ''('' then t else r2);
                    g2 = takeWhile isdigitdot r3
                in Some (takeWhile isdigitdot r, if g2 = [] then None else Some g2))))"

section \<open>Exceptions\<close>

datatype exn = ValueError | OverflowError | IndexError | RuntimeError | TypeError

section \<open>Floats\<close>

text \<open>
  A Python float is an IEEE 754 binary64 number. The program only produces the ones
  that are not negative: every number comes from a text of digits and dots, or is such a
  number times 1000. A finite float is modelled by the rational number it denotes;
  \<^verbatim>\<open>float(s)\<close> and the product round to the nearest binary64 number, ties to even,
  with gradual underflow below \<open>2\<^sup>-\<^sup>1\<^sup>0\<^sup>2\<^sup>2\<close> and overflow to infinity from \<open>2\<^sup>1\<^sup>0\<^sup>2\<^sup>4\<close> on.
  HOL's equality on \<open>NaN\<close> is structural; Python's \<^verbatim>\<open>nan == nan\<close> is false, and the
  program never compares floats.
\<close>

datatype pyfloat = NaN | PosInf | Fin rat

fun bit_length :: "nat \<Rightarrow> nat" where
  "bit_length n = (if n = 0 then 0 else Suc (bit_length (n div 2)))"

declare bit_length.simps [simp del]

definition floor_log2 :: "rat \<Rightarrow> int" where
  \<comment> \<open>For positive \<open>x\<close>, the \<open>e\<close> with \<open>2\<^sup>e \<le> x < 2\<^sup>e\<^sup>+\<^sup>1\<close>.\<close>
  "floor_log2 x =
     (if 1 \<le> x then int (bit_length (nat \<lfloor>x\<rfloor>)) - 1
      else - int (bit_length (nat \<lceil>1 / x\<rceil> - 1)))"

definition two_powi :: "int \<Rightarrow> rat" where
  "two_powi s = (if 0 \<le> s then 2 ^ nat s else 1 / 2 ^ nat (- s))"

definition round_half_even :: "rat \<Rightarrow> int" where
  \<comment> \<open>The integer nearest to \<open>y\<close>, the even one of two that are equally near.\<close>
  "round_half_even y =
     (let q = \<lfloor>y\<rfloor>; f = y - of_int q
      in if f < 1 / 2 \<or> (f = 1 / 2 \<and> even q) then q else q + 1)"

definition round_double :: "rat \<Rightarrow> pyfloat" where
  \<comment> \<open>The binary64 number nearest to \<open>x \<ge> 0\<close>: a significand of 53 bits at most, in units
      of \<open>2\<^sup>e\<^sup>-\<^sup>5\<^sup>2\<close>, with the exponent \<open>e\<close> not below \<open>-1022\<close>.\<close>
  "round_double x =
     (if x \<le> 0 then Fin 0
      else
        let e = max (floor_log2 x) (- 1022);
            u = two_powi (e - 52);
            r = of_int (round_half_even (x / u)) * u
        in if 2 ^ 1024 \<le> r then PosInf else Fin r)"

definition float_str :: "string \<Rightarrow> exn + pyfloat" where
  \<comment> \<open>\<^verbatim>\<open>float(x)\<close> for the texts the program passes: \<^verbatim>\<open>'nan'\<close>, or digits and dots. Such a
      text is a number when it has one dot at most and one digit at least.\<close>
  "float_str x =
     (if x = ''nan'' then Inr NaN
      else
        (case dropWhile isdigit x of
           [] \<Rightarrow> if x = [] then Inl ValueError else Inr (round_double (of_nat (int_str x)))
         | c # fr \<Rightarrow>
             if c = CHR ''.'' \<and> list_all isdigit fr \<and> (takeWhile isdigit x \<noteq> [] \<or> fr \<noteq> [])
             then Inr (round_double
                         (of_nat (int_str (takeWhile isdigit x @ fr)) / 10 ^ length fr))
             else Inl ValueError))"

definition float_mul :: "pyfloat \<Rightarrow> pyfloat \<Rightarrow> pyfloat" where
  \<comment> \<open>The product of two floats that are not negative.\<close>
  "float_mul a b =
     (case (a, b) of
        (Fin x, Fin y) \<Rightarrow> round_double (x * y)
      | (Fin x, PosInf) \<Rightarrow> if x = 0 then NaN else PosInf
      | (PosInf, Fin y) \<Rightarrow> if y = 0 then NaN else PosInf
      | (PosInf, PosInf) \<Rightarrow> PosInf
      | _ \<Rightarrow> NaN)"

definition int_float :: "pyfloat \<Rightarrow> exn + nat" where
  \<comment> \<open>\<^verbatim>\<open>int(f)\<close> truncates; it raises on \<^verbatim>\<open>nan\<close> and on infinity.\<close>
  "int_float f =
     (case f of
        NaN \<Rightarrow> Inl ValueError
      | PosInf \<Rightarrow> Inl OverflowError
      | Fin x \<Rightarrow> Inr (nat \<lfloor>x\<rfloor>))"

section \<open>The field catalogue\<close>

datatype Drm4 =
    VERSION | TIMESTAMP_ELECTR | EQ_ID
  | READ_DEL_T1_KWH | READ_DEL_T2_KWH | TARIFF_INDICATOR | POWER_DEL_KW | CURRENT_A
  | GAS_T_VOLUME_M3
  | UNUSED_01 | UNUSED_02 | UNUSED_03 | UNUSED_04 | UNUSED_05 | UNUSED_06 | UNUSED_07
  | UNUSED_08 | UNUSED_09 | UNUSED_10 | UNUSED_11 | UNUSED_12 | UNUSED_13 | UNUSED_14

type_synonym obis = "nat \<times> nat \<times> nat \<times> nat \<times> nat"

fun Drm4_value :: "Drm4 \<Rightarrow> obis" where
  "Drm4_value VERSION = (1, 3, 0, 2, 8)"
| "Drm4_value TIMESTAMP_ELECTR = (0, 0, 1, 0, 0)"
| "Drm4_value EQ_ID = (0, 0, 96, 1, 1)"
| "Drm4_value READ_DEL_T1_KWH = (1, 0, 1, 8, 1)"
| "Drm4_value READ_DEL_T2_KWH = (1, 0, 1, 8, 2)"
| "Drm4_value TARIFF_INDICATOR = (0, 0, 96, 14, 0)"
| "Drm4_value POWER_DEL_KW = (1, 0, 21, 7, 0)"
| "Drm4_value CURRENT_A = (1, 0, 31, 7, 0)"
| "Drm4_value GAS_T_VOLUME_M3 = (0, 1, 24, 2, 1)"
| "Drm4_value UNUSED_01 = (1, 0, 2, 8, 1)"
| "Drm4_value UNUSED_02 = (1, 0, 2, 8, 2)"
| "Drm4_value UNUSED_03 = (1, 0, 1, 7, 0)"
| "Drm4_value UNUSED_04 = (1, 0, 2, 7, 0)"
| "Drm4_value UNUSED_05 = (0, 0, 96, 7, 9)"
| "Drm4_value UNUSED_06 = (0, 0, 96, 7, 21)"
| "Drm4_value UNUSED_07 = (1, 0, 99, 97, 0)"
| "Drm4_value UNUSED_08 = (1, 0, 32, 32, 0)"
| "Drm4_value UNUSED_09 = (1, 0, 32, 36, 0)"
| "Drm4_value UNUSED_10 = (0, 0, 96, 13, 1)"
| "Drm4_value UNUSED_11 = (0, 0, 96, 13, 0)"
| "Drm4_value UNUSED_12 = (1, 0, 22, 7, 0)"
| "Drm4_value UNUSED_13 = (0, 1, 24, 1, 0)"
| "Drm4_value UNUSED_14 = (0, 1, 96, 1, 0)"

definition Drm4_members :: "Drm4 list" where
  \<comment> \<open>The members in the order of the class body.\<close>
  "Drm4_members =
     [VERSION, TIMESTAMP_ELECTR, EQ_ID, READ_DEL_T1_KWH, READ_DEL_T2_KWH, TARIFF_INDICATOR,
      POWER_DEL_KW, CURRENT_A, GAS_T_VOLUME_M3,
      UNUSED_01, UNUSED_02, UNUSED_03, UNUSED_04, UNUSED_05, UNUSED_06, UNUSED_07,
      UNUSED_08, UNUSED_09, UNUSED_10, UNUSED_11, UNUSED_12, UNUSED_13, UNUSED_14]"

definition Drm4_call :: "obis \<Rightarrow> Drm4 option" where
  \<comment> \<open>\<^verbatim>\<open>Drm4(v)\<close>: the member with that value; \<open>None\<close> stands for the \<^verbatim>\<open>ValueError\<close>
      that the loop catches.\<close>
  "Drm4_call v = find (\<lambda>f. Drm4_value f = v) Drm4_members"

section \<open>Dates and times\<close>

text \<open>
  A \<^verbatim>\<open>datetime\<close> at second precision. A value of this type is either naive (wall-clock
  time of the meter) or aware in UTC; which one is said where it is produced. Two aware
  values in UTC compare as Python compares them, field by field.
\<close>

record datetime =
  year :: nat
  month :: nat
  day :: nat
  hour :: nat
  minute :: nat
  second :: nat

definition is_leap :: "nat \<Rightarrow> bool" where
  "is_leap y = (y mod 4 = 0 \<and> (y mod 100 \<noteq> 0 \<or> y mod 400 = 0))"

definition days_in_month :: "nat \<Rightarrow> nat \<Rightarrow> nat" where
  "days_in_month y m =
     (if m = 2 then (if is_leap y then 29 else 28)
      else if m = 4 \<or> m = 6 \<or> m = 9 \<or> m = 11 then 30 else 31)"

definition datetime_new :: "nat \<Rightarrow> nat \<Rightarrow> nat \<Rightarrow> nat \<Rightarrow> nat \<Rightarrow> nat \<Rightarrow> exn + datetime" where
  \<comment> \<open>The range checks of the constructor (\<^verbatim>\<open>MINYEAR = 1\<close>, \<^verbatim>\<open>MAXYEAR = 9999\<close>).\<close>
  "datetime_new y m d H M S =
     (if 1 \<le> y \<and> y \<le> 9999 \<and> 1 \<le> m \<and> m \<le> 12 \<and> 1 \<le> d \<and> d \<le> days_in_month y m
         \<and> H \<le> 23 \<and> M \<le> 59 \<and> S \<le> 59
      then Inr \<lparr>year = y, month = m, day = d, hour = H, minute = M, second = S\<rparr>
      else Inl ValueError)"

fun lex_le :: "nat list \<Rightarrow> nat list \<Rightarrow> bool" where
  "lex_le [] ys = True"
| "lex_le (x # xs) [] = False"
| "lex_le (x # xs) (y # ys) = (x < y \<or> (x = y \<and> lex_le xs ys))"

definition dt_fields :: "datetime \<Rightarrow> nat list" where
  "dt_fields t = [year t, month t, day t, hour t, minute t, second t]"

definition dt_le :: "datetime \<Rightarrow> datetime \<Rightarrow> bool" where
  \<comment> \<open>\<^verbatim>\<open>a <= b\<close> for two aware values of the same zone.\<close>
  "dt_le a b = lex_le (dt_fields a) (dt_fields b)"

subsection \<open>strptime\<close>

text \<open>
  \<^verbatim>\<open>datetime.strptime\<close> turns the format into a regular expression, one group of
  alternatives per directive, and takes the first match that the backtracking matcher
  finds from the start of the text; the text must end where that match ends. A directive
  is modelled by the list of its possible matches in the order the matcher tries them,
  each with the text that is left, and the format by all combinations in that order.
  The expression is compiled with \<^verbatim>\<open>IGNORECASE\<close>, which matters for the letters of
  \<^verbatim>\<open>INFLUX_DT_FMT\<close> only.
\<close>

definition rx_dd :: "(nat \<Rightarrow> nat \<Rightarrow> bool) \<Rightarrow> string \<Rightarrow> (nat \<times> string) list" where
  \<comment> \<open>Two digits that satisfy \<open>P\<close>.\<close>
  "rx_dd P s =
     (case s of
        c1 # c2 # r \<Rightarrow>
          if isdigit c1 \<and> isdigit c2 \<and> P (digit_val c1) (digit_val c2)
          then [(10 * digit_val c1 + digit_val c2, r)] else []
      | _ \<Rightarrow> [])"

definition rx_d1 :: "(nat \<Rightarrow> bool) \<Rightarrow> string \<Rightarrow> (nat \<times> string) list" where
  \<comment> \<open>One digit that satisfies \<open>P\<close>.\<close>
  "rx_d1 P s =
     (case s of
        c # r \<Rightarrow> if isdigit c \<and> P (digit_val c) then [(digit_val c, r)] else []
      | [] \<Rightarrow> [])"

definition rx_lit :: "string \<Rightarrow> string \<Rightarrow> string list" where
  \<comment> \<open>One character out of \<open>cs\<close>: a literal of the format in its upper and lower case.\<close>
  "rx_lit cs s = (case s of c # r \<Rightarrow> if c \<in> set cs then [r] else [] | [] \<Rightarrow> [])"

definition rx_y :: "string \<Rightarrow> (nat \<times> string) list" where
  \<comment> \<open>\<^verbatim>\<open>%y\<close>: \<^verbatim>\<open>\d\d\<close>\<close>
  "rx_y s = rx_dd (\<lambda>a b. True) s"

definition rx_Y :: "string \<Rightarrow> (nat \<times> string) list" where
  \<comment> \<open>\<^verbatim>\<open>%Y\<close>: \<^verbatim>\<open>\d\d\d\d\<close>\<close>
  "rx_Y s = [(100 * a + b, r). (a, t) \<leftarrow> rx_dd (\<lambda>a b. True) s, (b, r) \<leftarrow> rx_dd (\<lambda>a b. True) t]"

definition rx_m :: "string \<Rightarrow> (nat \<times> string) list" where
  \<comment> \<open>\<^verbatim>\<open>%m\<close>: \<^verbatim>\<open>1[0-2]|0[1-9]|[1-9]\<close>\<close>
  "rx_m s = rx_dd (\<lambda>a b. a = 1 \<and> b \<le> 2) s @ rx_dd (\<lambda>a b. a = 0 \<and> 1 \<le> b) s
            @ rx_d1 (\<lambda>a. 1 \<le> a) s"

definition rx_d :: "string \<Rightarrow> (nat \<times> string) list" where
  \<comment> \<open>\<^verbatim>\<open>%d\<close>: \<^verbatim>\<open>3[0-1]|[1-2]\d|0[1-9]|[1-9]| [1-9]\<close>\<close>
  "rx_d s = rx_dd (\<lambda>a b. a = 3 \<and> b \<le> 1) s @ rx_dd (\<lambda>a b. 1 \<le> a \<and> a \<le> 2) s
            @ rx_dd (\<lambda>a b. a = 0 \<and> 1 \<le> b) s @ rx_d1 (\<lambda>a. 1 \<le> a) s
            @ concat (map (rx_d1 (\<lambda>a. 1 \<le> a)) (rx_lit '' '' s))"

definition rx_H :: "string \<Rightarrow> (nat \<times> string) list" where
  \<comment> \<open>\<^verbatim>\<open>%H\<close>: \<^verbatim>\<open>2[0-3]|[0-1]\d|\d\<close>\<close>
  "rx_H s = rx_dd (\<lambda>a b. a = 2 \<and> b \<le> 3) s @ rx_dd (\<lambda>a b. a \<le> 1) s @ rx_d1 (\<lambda>a. True) s"

definition rx_M :: "string \<Rightarrow> (nat \<times> string) list" where
  \<comment> \<open>\<^verbatim>\<open>%M\<close>: \<^verbatim>\<open>[0-5]\d|\d\<close>\<close>
  "rx_M s = rx_dd (\<lambda>a b. a \<le> 5) s @ rx_d1 (\<lambda>a. True) s"

definition rx_S :: "string \<Rightarrow> (nat \<times> string) list" where
  \<comment> \<open>\<^verbatim>\<open>%S\<close>: \<^verbatim>\<open>6[0-1]|[0-5]\d|\d\<close>\<close>
  "rx_S s = rx_dd (\<lambda>a b. a = 6 \<and> b \<le> 1) s @ rx_dd (\<lambda>a b. a \<le> 5) s @ rx_d1 (\<lambda>a. True) s"

type_synonym dt_match = "(nat \<times> nat \<times> nat \<times> nat \<times> nat \<times> nat) \<times> string"

definition DRM4_DT_FMT_matches :: "string \<Rightarrow> dt_match list" where
  \<comment> \<open>\<^verbatim>\<open>DRM4_DT_FMT = '%y%m%d%H%M%S'\<close>\<close>
  "DRM4_DT_FMT_matches s =
     [((y, m, d, H, M, S), r6).
        (y, r1) \<leftarrow> rx_y s, (m, r2) \<leftarrow> rx_m r1, (d, r3) \<leftarrow> rx_d r2,
        (H, r4) \<leftarrow> rx_H r3, (M, r5) \<leftarrow> rx_M r4, (S, r6) \<leftarrow> rx_S r5]"

definition INFLUX_DT_FMT_matches :: "string \<Rightarrow> dt_match list" where
  \<comment> \<open>\<^verbatim>\<open>INFLUX_DT_FMT = '%Y-%m-%dT%H:%M:%SZ'\<close>\<close>
  "INFLUX_DT_FMT_matches s =
     [((y, m, d, H, M, S), r12).
        (y, r1) \<leftarrow> rx_Y s, r2 \<leftarrow> rx_lit ''-'' r1, (m, r3) \<leftarrow> rx_m r2, r4 \<leftarrow> rx_lit ''-'' r3,
        (d, r5) \<leftarrow> rx_d r4, r6 \<leftarrow> rx_lit ''Tt'' r5, (H, r7) \<leftarrow> rx_H r6, r8 \<leftarrow> rx_lit '':'' r7,
        (M, r9) \<leftarrow> rx_M r8, r10 \<leftarrow> rx_lit '':'' r9, (S, r11) \<leftarrow> rx_S r10,
        r12 \<leftarrow> rx_lit ''Zz'' r11]"

definition strptime_DRM4_DT_FMT :: "string \<Rightarrow> exn + datetime" where
  \<comment> \<open>\<^verbatim>\<open>datetime.strptime(s, DRM4_DT_FMT)\<close>, naive. A two-digit year up to 68 is in the
      century 2000, a later one in the century 1900.\<close>
  "strptime_DRM4_DT_FMT s =
     (case DRM4_DT_FMT_matches s of
        [] \<Rightarrow> Inl ValueError
      | ((y, m, d, H, M, S), rest) # _ \<Rightarrow>
          if rest \<noteq> [] then Inl ValueError
          else datetime_new (if y \<le> 68 then y + 2000 else y + 1900) m d H M S)"

definition strptime_INFLUX_DT_FMT :: "string \<Rightarrow> exn + datetime" where
  \<comment> \<open>\<^verbatim>\<open>datetime.strptime(s, INFLUX_DT_FMT)\<close>, naive.\<close>
  "strptime_INFLUX_DT_FMT s =
     (case INFLUX_DT_FMT_matches s of
        [] \<Rightarrow> Inl ValueError
      | ((y, m, d, H, M, S), rest) # _ \<Rightarrow>
          if rest \<noteq> [] then Inl ValueError else datetime_new y m d H M S)"

subsection \<open>strftime\<close>

definition pad2 :: "nat \<Rightarrow> string" where
  \<comment> \<open>A number below 100 in two digits.\<close>
  "pad2 n = [digit_char (n div 10), digit_char (n mod 10)]"

definition strftime_INFLUX_DT_FMT :: "datetime \<Rightarrow> string" where
  \<comment> \<open>\<^verbatim>\<open>dt.strftime(INFLUX_DT_FMT)\<close>. The C library writes the year without padding;
      the years that occur here have four digits.\<close>
  "strftime_INFLUX_DT_FMT t =
     str_int (year t) @ ''-'' @ pad2 (month t) @ ''-'' @ pad2 (day t) @ ''T''
     @ pad2 (hour t) @ '':'' @ pad2 (minute t) @ '':'' @ pad2 (second t) @ ''Z''"

subsection \<open>The meter's time zone\<close>

text \<open>
  \<^verbatim>\<open>TZ_DRM4 = pytz.timezone("Europe/Amsterdam")\<close>. The zone table is the one of the
  \<^verbatim>\<open>pytz\<close> package, for the years a two-digit year can denote (1969 to 2068): Central
  European Time, one hour ahead of UTC, and from 1977 on summer time, two hours
  ahead. Summer time starts at 01:00 UTC on the first Sunday of April (1977 to 1980)
  or the last Sunday of March (from 1981), and ends at 01:00 UTC on the last Sunday of
  September (to 1995, but on 1 October in 1978) or of October (from 1996). The table of
  \<^verbatim>\<open>pytz\<close> ends in 2037; later times are standard time.
  \<^verbatim>\<open>localize\<close> is called with its default \<^verbatim>\<open>is_dst=False\<close>: a wall-clock time in
  the hour that is skipped in spring or repeated in autumn is taken as standard time.
\<close>

definition days_before_year :: "nat \<Rightarrow> nat" where
  "days_before_year y =
     ((y - 1) * 365 + (y - 1) div 4 + (y - 1) div 400) - (y - 1) div 100"

definition days_before_month :: "nat \<Rightarrow> nat \<Rightarrow> nat" where
  "days_before_month y m = sum_list (map (days_in_month y) [1..<m])"

definition weekday :: "nat \<Rightarrow> nat \<Rightarrow> nat \<Rightarrow> nat" where
  \<comment> \<open>Monday is 0, Sunday is 6.\<close>
  "weekday y m d = (days_before_year y + days_before_month y m + d + 6) mod 7"

definition last_sunday :: "nat \<Rightarrow> nat \<Rightarrow> nat" where
  "last_sunday y m = days_in_month y m - (weekday y m (days_in_month y m) + 1) mod 7"

definition first_sunday :: "nat \<Rightarrow> nat \<Rightarrow> nat" where
  "first_sunday y m = 1 + (6 - weekday y m 1) mod 7"

definition dst_start :: "nat \<Rightarrow> nat list" where
  \<comment> \<open>Month, day and wall-clock time from which summer time applies.\<close>
  "dst_start y = (if y \<le> 1980 then [4, first_sunday y 4, 3, 0, 0]
                  else [3, last_sunday y 3, 3, 0, 0])"

definition dst_end :: "nat \<Rightarrow> nat list" where
  \<comment> \<open>Month, day and wall-clock time from which standard time applies again.\<close>
  "dst_end y = (if y = 1978 then [10, 1, 2, 0, 0]
                else if y \<le> 1995 then [9, last_sunday y 9, 2, 0, 0]
                else [10, last_sunday y 10, 2, 0, 0])"

definition TZ_DRM4_is_dst :: "datetime \<Rightarrow> bool" where
  "TZ_DRM4_is_dst t =
     (1977 \<le> year t \<and> year t \<le> 2037
      \<and> lex_le (dst_start (year t)) (tl (dt_fields t))
      \<and> \<not> lex_le (dst_end (year t)) (tl (dt_fields t)))"

definition TZ_DRM4_utcoffset :: "datetime \<Rightarrow> nat" where
  \<comment> \<open>Hours ahead of UTC of the naive time \<open>t\<close>.\<close>
  "TZ_DRM4_utcoffset t = (if TZ_DRM4_is_dst t then 2 else 1)"

definition prev_day :: "datetime \<Rightarrow> datetime" where
  "prev_day t =
     (if 1 < day t then t\<lparr>day := day t - 1\<rparr>
      else if 1 < month t
        then t\<lparr>month := month t - 1, day := days_in_month (year t) (month t - 1)\<rparr>
      else t\<lparr>year := year t - 1, month := 12, day := 31\<rparr>)"

definition sub_hours :: "datetime \<Rightarrow> nat \<Rightarrow> datetime" where
  \<comment> \<open>\<open>h\<close> hours earlier, for \<open>h\<close> up to 24.\<close>
  "sub_hours t h =
     (if h \<le> hour t then t\<lparr>hour := hour t - h\<rparr>
      else (prev_day t)\<lparr>hour := hour t + 24 - h\<rparr>)"

definition parse_dt_to_utc :: "pyfloat \<Rightarrow> exn + datetime" where
  \<comment> \<open>The result is aware, in UTC.\<close>
  "parse_dt_to_utc dt_naive_f =
     (case int_float dt_naive_f of
        Inl e \<Rightarrow> Inl e
      | Inr n \<Rightarrow>
          (case strptime_DRM4_DT_FMT (str_int n) of
             Inl e \<Rightarrow> Inl e
           | Inr dt_naive \<Rightarrow> Inr (sub_hours dt_naive (TZ_DRM4_utcoffset dt_naive))))"

section \<open>The checksum\<close>

text \<open>
  \<^verbatim>\<open>drm4_crc = crcmod.mkCrcFun(0x18005, rev=False)\<close>: a 16-bit CRC with the polynomial
  \<^verbatim>\<open>0x8005\<close>, most significant bit first, started from the library's default register
  of all ones, with no final exclusive-or.
\<close>

definition encode_utf8 :: "string \<Rightarrow> nat list" where
  \<comment> \<open>\<^verbatim>\<open>data.encode('utf-8')\<close> for code points below 256.\<close>
  "encode_utf8 s =
     concat (map (\<lambda>c. let n = (of_char c :: nat)
                      in if n < 128 then [n] else [192 + n div 64, 128 + n mod 64]) s)"

definition crc_shift :: "nat \<Rightarrow> nat" where
  \<comment> \<open>One bit of a register below \<open>2\<^sup>1\<^sup>6\<close>.\<close>
  "crc_shift w = (if 32768 \<le> w then xor ((2 * w) mod 65536) 0x8005 else 2 * w)"

definition crc_byte :: "nat \<Rightarrow> nat \<Rightarrow> nat" where
  \<comment> \<open>The byte enters at the top of the register, which is then shifted eight times.\<close>
  "crc_byte w b =
     crc_shift (crc_shift (crc_shift (crc_shift
       (crc_shift (crc_shift (crc_shift (crc_shift (xor w (256 * b)))))))))"

definition drm4_crc :: "nat list \<Rightarrow> nat" where
  "drm4_crc bs = foldl crc_byte 0xFFFF bs"

fun hex_digits :: "nat \<Rightarrow> string" where
  "hex_digits n =
     (if n < 16 then [''0123456789abcdef'' ! n]
      else hex_digits (n div 16) @ [''0123456789abcdef'' ! (n mod 16)])"

declare hex_digits.simps [simp del]

definition hex :: "nat \<Rightarrow> string" where
  \<comment> \<open>\<^verbatim>\<open>hex(n)\<close>\<close>
  "hex n = ''0x'' @ hex_digits n"

definition DRM4_LINE_SEP :: string where
  "DRM4_LINE_SEP = [CHR 0x0D, CHR 0x0A]"

section \<open>The telegram parser\<close>

datatype pyval = VFloat pyfloat | VInt int | VStr string | VDatetime datetime

text \<open>
  A \<^verbatim>\<open>dict\<close> is an association list in insertion order: \<^const>\<open>AList.update\<close> replaces
  the value of a key that is there and appends a new key, as assignment to
  \<^verbatim>\<open>telegram_info[key]\<close> does.
\<close>

type_synonym dict = "(string \<times> pyval) list"

text \<open>What the function prints, one constructor per \<^verbatim>\<open>print\<close> of the source.\<close>

datatype event =
    IgnoredLine string
  | EndOfTelegram string string
  | UnknownId string
  | NonImplemented string string
  | ReadInfo Drm4 string
  | IgnoredTelegram datetime datetime

text \<open>The local variables of \<^verbatim>\<open>parse_telegram\<close>, and what has been printed so far.\<close>

record locals =
  t_content :: "string list"
  telegram_info :: dict
  awaiting_start :: bool
  stdout :: "event list"

text \<open>
  One pass through the body of \<^verbatim>\<open>while True\<close> ends in \<^verbatim>\<open>continue\<close> (or falls
  through to the next pass), in \<^verbatim>\<open>break\<close>, after which \<^verbatim>\<open>telegram_info\<close> is
  returned (\<open>None\<close> where the source has set it to \<^verbatim>\<open>None\<close>), or in an exception
  that nothing catches.
\<close>

datatype step = Continue locals | Break locals "dict option" | Raise exn

definition print :: "event \<Rightarrow> locals \<Rightarrow> locals" where
  "print e st = st\<lparr>stdout := stdout st @ [e]\<rparr>"

definition setitem :: "string \<Rightarrow> pyval \<Rightarrow> locals \<Rightarrow> locals" where
  \<comment> \<open>\<^verbatim>\<open>telegram_info[k] = v\<close>\<close>
  "setitem k v st = st\<lparr>telegram_info := AList.update k v (telegram_info st)\<rparr>"

fun float_list :: "string list \<Rightarrow> exn + pyfloat list" where
  \<comment> \<open>\<^verbatim>\<open>[float(x) for x in xs]\<close>\<close>
  "float_list [] = Inr []"
| "float_list (x # xs) =
     (case float_str x of
        Inl e \<Rightarrow> Inl e
      | Inr f \<Rightarrow> (case float_list xs of Inl e \<Rightarrow> Inl e | Inr fs \<Rightarrow> Inr (f # fs)))"

definition convert :: "string \<times> string option \<Rightarrow> exn + (pyfloat \<times> pyfloat)" where
  \<comment> \<open>Lines 104 to 108: \<^verbatim>\<open>g_content.groups('nan')\<close> without the empty texts, as floats;
      a single float moves to the second place behind \<^verbatim>\<open>nan\<close>; the two are unpacked
      into \<^verbatim>\<open>value, extra\<close>.\<close>
  "convert g =
     (case float_list (filter (\<lambda>x. x \<noteq> [])
                         [fst g, (case snd g of None \<Rightarrow> ''nan'' | Some x \<Rightarrow> x)]) of
        Inl e \<Rightarrow> Inl e
      | Inr converted \<Rightarrow>
          (case (if length converted < 2
                 then (case converted of [] \<Rightarrow> Inl IndexError | c # _ \<Rightarrow> Inr [NaN, c])
                 else Inr converted) of
             Inl e \<Rightarrow> Inl e
           | Inr [v, x] \<Rightarrow> Inr (v, x)
           | Inr _ \<Rightarrow> Inl ValueError))"

definition stale :: "datetime option \<Rightarrow> datetime \<Rightarrow> bool" where
  \<comment> \<open>\<^verbatim>\<open>last and dt <= last\<close>; a \<^verbatim>\<open>datetime\<close> is always true.\<close>
  "stale last_timestamp dt = (case last_timestamp of None \<Rightarrow> False | Some w \<Rightarrow> dt_le dt w)"

definition store :: "datetime option \<Rightarrow> datetime option \<Rightarrow> Drm4 \<Rightarrow> pyfloat \<Rightarrow> pyfloat
                     \<Rightarrow> locals \<Rightarrow> step" where
  \<comment> \<open>Lines 114 to 146, the chain of \<^verbatim>\<open>if field == ...\<close>.\<close>
  "store last_timestamp_electr last_timestamp_gas field val extra st =
     (if field = TIMESTAMP_ELECTR then
        (case parse_dt_to_utc val of
           Inl e \<Rightarrow> Raise e
         | Inr dt \<Rightarrow>
             if stale last_timestamp_electr dt
             then Break (print (IgnoredTelegram dt (the last_timestamp_electr)) st) None
             else Continue (setitem ''dt_electricity'' (VDatetime dt) st))
      else if field = READ_DEL_T1_KWH then Continue (setitem ''energy_t1'' (VFloat val) st)
      else if field = READ_DEL_T2_KWH then Continue (setitem ''energy_t2'' (VFloat val) st)
      else if field = TARIFF_INDICATOR then
        (case int_float val of
           Inl e \<Rightarrow> Raise e
         | Inr n \<Rightarrow> Continue (setitem ''tariff_indicator'' (VInt (int n)) st))
      else if field = POWER_DEL_KW then
        Continue (setitem ''power_delivered_w'' (VFloat (float_mul (Fin 1000) val)) st)
      else if field = CURRENT_A then Continue (setitem ''current_delivered'' (VFloat val) st)
      else if field = GAS_T_VOLUME_M3 then
        (case parse_dt_to_utc val of
           Inl e \<Rightarrow> Raise e
         | Inr dt \<Rightarrow>
             if stale last_timestamp_gas dt then Continue st
             else Continue (setitem ''gas_dt'' (VDatetime dt)
                             (setitem ''gas_time'' (VStr (strftime_INFLUX_DT_FMT dt))
                               (setitem ''gas'' (VFloat extra) st))))
      else Continue st)"

definition obis_of :: "string \<times> string \<times> string \<times> string \<times> string \<Rightarrow> obis" where
  \<comment> \<open>\<^verbatim>\<open>tuple(int(x) for x in drm4_id.groups())\<close>\<close>
  "obis_of g = (case g of (a, b, c, d, e) \<Rightarrow>
                  (int_str a, int_str b, int_str c, int_str d, int_str e))"

text \<open>
  Lines 92 to 112 find out what a line of the body is: a line without an identifier, a
  line whose identifier is no member of \<^verbatim>\<open>Drm4\<close>, a known field without a
  parenthesised value, a known field whose value is no number (the \<^verbatim>\<open>ValueError\<close> of
  \<^verbatim>\<open>float\<close>, which nothing catches), or a known field with \<^verbatim>\<open>value\<close> and \<^verbatim>\<open>extra\<close>.
\<close>

datatype classified =
    NoId
  | NotMember string
  | NoValue Drm4
  | BadValue exn
  | Field Drm4 pyfloat pyfloat

definition classify :: "string \<Rightarrow> classified" where
  "classify line =
     (case tel_id_re_search line of
        None \<Rightarrow> NoId
      | Some drm4_id \<Rightarrow>
          (case Drm4_call (obis_of drm4_id) of
             None \<Rightarrow> NotMember (group0 drm4_id)
           | Some field \<Rightarrow>
               (case tel_content_re_extra_search line of
                  None \<Rightarrow> NoValue field
                | Some g_content \<Rightarrow>
                    (case convert g_content of
                       Inl e \<Rightarrow> BadValue e
                     | Inr (val, extra) \<Rightarrow> Field field val extra))))"

definition decode :: "datetime option \<Rightarrow> datetime option \<Rightarrow> string \<Rightarrow> locals \<Rightarrow> step" where
  \<comment> \<open>Lines 92 to 146: a line of the body that is not the end marker.\<close>
  "decode last_timestamp_electr last_timestamp_gas line st =
     (case classify line of
        NoId \<Rightarrow> Continue (print (UnknownId line) st)
      | NotMember id0 \<Rightarrow> Continue (print (NonImplemented id0 line) st)
      | NoValue field \<Rightarrow> Continue (print (ReadInfo field line) st)
      | BadValue e \<Rightarrow> Raise e
      | Field field val extra \<Rightarrow>
          store last_timestamp_electr last_timestamp_gas field val extra st)"

definition finish :: "string \<Rightarrow> locals \<Rightarrow> locals" where
  \<comment> \<open>Lines 86 to 89, at the end marker.\<close>
  "finish line st =
     (let st' = st\<lparr>t_content := t_content st @ [''!'']\<rparr>;
          data = join DRM4_LINE_SEP (t_content st');
          crc_calc = hex (drm4_crc (encode_utf8 data))
      in print (EndOfTelegram crc_calc line) st')"

definition body :: "datetime option \<Rightarrow> datetime option \<Rightarrow> locals \<Rightarrow> string \<Rightarrow> step" where
  \<comment> \<open>Lines 70 to 146; \<open>raw\<close> is the text \<^verbatim>\<open>ser.readline().decode('utf-8')\<close>.\<close>
  "body last_timestamp_electr last_timestamp_gas st raw =
     (let line = strip raw;
          st1 = st\<lparr>t_content := t_content st @ [line]\<rparr>
      in if line = [] then Continue st1
         else if awaiting_start st1 then
           (if startswith line ''/'' then Continue (st1\<lparr>awaiting_start := False\<rparr>)
            else Continue (print (IgnoredLine line) st1))
         else if startswith line ''!'' then Break (finish line st1) (Some (telegram_info st1))
         else decode last_timestamp_electr last_timestamp_gas line st1)"

text \<open>
  The port is modelled by the lines it delivers. When they are used up, every further
  \<^verbatim>\<open>readline\<close> times out with the empty text, which the loop skips: the call never
  returns, which is the outcome \<open>Starved\<close>.
\<close>

datatype outcome = Returned "dict option" locals | Raised exn | Starved locals

fun loop :: "datetime option \<Rightarrow> datetime option \<Rightarrow> locals \<Rightarrow> string list \<Rightarrow> outcome" where
  "loop le lg st [] = Starved st"
| "loop le lg st (raw # ser) =
     (case body le lg st raw of
        Continue st' \<Rightarrow> loop le lg st' ser
      | Break st' r \<Rightarrow> Returned r st'
      | Raise e \<Rightarrow> Raised e)"

definition initial :: locals where
  "initial = \<lparr>t_content = [], telegram_info = [], awaiting_start = True, stdout = []\<rparr>"

definition parse_telegram_run :: "string list \<Rightarrow> datetime option \<Rightarrow> datetime option \<Rightarrow> outcome" where
  \<comment> \<open>The call with its final local variables and output.\<close>
  "parse_telegram_run ser last_timestamp_electr last_timestamp_gas =
     loop last_timestamp_electr last_timestamp_gas initial ser"

datatype 'a result = Returns 'a | Raises exn | NoReturn

fun result_of :: "outcome \<Rightarrow> dict option result" where
  "result_of (Returned r st) = Returns r"
| "result_of (Raised e) = Raises e"
| "result_of (Starved st) = NoReturn"

definition parse_telegram :: "string list \<Rightarrow> datetime option \<Rightarrow> datetime option
                              \<Rightarrow> dict option result" where
  \<comment> \<open>What the caller sees of the call.\<close>
  "parse_telegram ser last_timestamp_electr last_timestamp_gas =
     result_of (parse_telegram_run ser last_timestamp_electr last_timestamp_gas)"

section \<open>The caller\<close>

text \<open>
  One pass of the loop of \<^verbatim>\<open>main\<close> (lines 164 to 187): the point written to the
  database with the two watermarks as they are after the pass. \<^verbatim>\<open>dict.pop(k, default)\<close>
  removes the key and yields its value, or the default.
\<close>

record point =
  point_fields :: dict
  point_tags :: "pyval option"
  point_time :: datetime

definition pop_dt :: "string \<Rightarrow> datetime option \<Rightarrow> dict \<Rightarrow> exn + datetime option" where
  \<comment> \<open>\<^verbatim>\<open>fields.pop(k, default)\<close> where a \<^verbatim>\<open>datetime\<close> is expected; any other value
      would fail where it is next compared, as a \<^verbatim>\<open>TypeError\<close>.\<close>
  "pop_dt k dflt d =
     (case map_of d k of
        None \<Rightarrow> Inr dflt
      | Some (VDatetime t) \<Rightarrow> Inr (Some t)
      | Some _ \<Rightarrow> Inl TypeError)"

definition main_pass :: "string list \<Rightarrow> datetime option \<Rightarrow> datetime option
                         \<Rightarrow> (point \<times> datetime option \<times> datetime option) result" where
  "main_pass ser last_dt_electricity last_dt_gas =
     (case parse_telegram ser last_dt_electricity last_dt_gas of
        Raises e \<Rightarrow> Raises e
      | NoReturn \<Rightarrow> NoReturn
      | Returns None \<Rightarrow> Raises RuntimeError
      | Returns (Some fs) \<Rightarrow>
          if fs = [] then Raises RuntimeError
          else
            (case pop_dt ''dt_electricity'' last_dt_electricity fs of
               Inl e \<Rightarrow> Raises e
             | Inr None \<Rightarrow> Raises RuntimeError
             | Inr (Some t) \<Rightarrow>
                 (case pop_dt ''gas_dt'' last_dt_gas (AList.delete ''dt_electricity'' fs) of
                    Inl e \<Rightarrow> Raises e
                  | Inr last_dt_gas' \<Rightarrow>
                      (let fs' = AList.delete ''gas_dt'' (AList.delete ''dt_electricity'' fs)
                       in Returns
                            (\<lparr>point_fields = AList.delete ''tariff_indicator'' fs',
                              point_tags = map_of fs' ''tariff_indicator'',
                              point_time = t\<rparr>,
                             Some t, last_dt_gas')))))"

section \<open>Evaluation\<close>

text \<open>Facts that let the simplifier run the definitions on concrete texts and numbers.\<close>

lemma floor_rat_numeral_div:
  "\<lfloor>(numeral a :: rat) / numeral b\<rfloor> = numeral a div numeral b"
  using floor_divide_of_int_eq [of "numeral a" "numeral b", where ?'a = rat] by simp

lemma ceiling_rat_numeral_div:
  "\<lceil>(numeral a :: rat) / numeral b\<rceil> = - ((- numeral a) div numeral b)"
  using floor_divide_of_int_eq [of "- numeral a" "numeral b", where ?'a = rat]
  by (simp add: ceiling_def)

lemmas eval_float =
  float_str_def round_double_def floor_log2_def round_half_even_def int_str_def digit_val_def
  isdigit_def bit_length.simps float_mul_def int_float_def Let_def two_powi_def
  floor_rat_numeral_div ceiling_rat_numeral_div

lemmas eval_line =
  strip_def isspace_def startswith_def tel_id_re_search.simps tel_id_re_match_def
  re_digits_sep_def tel_content_re_extra_search_def isdigitdot_def isdigit_def Drm4_call_def
  Drm4_members_def group0_def obis_of_def int_str_def digit_val_def

lemmas eval_dt =
  str_int.simps digit_char_def strptime_DRM4_DT_FMT_def DRM4_DT_FMT_matches_def
  rx_dd_def rx_d1_def rx_lit_def rx_y_def rx_Y_def rx_m_def rx_d_def rx_H_def rx_M_def rx_S_def
  datetime_new_def days_in_month_def is_leap_def parse_dt_to_utc_def sub_hours_def prev_day_def
  TZ_DRM4_utcoffset_def TZ_DRM4_is_dst_def dst_start_def dst_end_def last_sunday_def
  first_sunday_def weekday_def days_before_year_def days_before_month_def dt_fields_def
  strftime_INFLUX_DT_FMT_def pad2_def strptime_INFLUX_DT_FMT_def INFLUX_DT_FMT_matches_def
  dt_le_def stale_def

section \<open>The power line\<close>

lemma power_line_id:
  "tel_id_re_search ''1-0:21.7.0(00.424*kW)'' = Some (''1'', ''0'', ''21'', ''7'', ''0'')"
  by (simp add: eval_line)

lemma power_line_field:
  "Drm4_call (obis_of (''1'', ''0'', ''21'', ''7'', ''0'')) = Some POWER_DEL_KW"
  by (simp add: eval_line)

lemma power_line_content:
  "tel_content_re_extra_search ''1-0:21.7.0(00.424*kW)'' = Some (''00.424'', None)"
  by (simp add: eval_line)

lemma power_line_convert:
  "convert (''00.424'', None) = Inr (Fin (7638104968020361 / 18014398509481984), NaN)"
  by (simp add: convert_def eval_float)

lemma power_line_scaled:
  "float_mul (Fin 1000) (Fin (7638104968020361 / 18014398509481984)) = Fin 424"
  by (simp add: eval_float)

lemma power_line_classify:
  "classify ''1-0:21.7.0(00.424*kW)'' =
     Field POWER_DEL_KW (Fin (7638104968020361 / 18014398509481984)) NaN"
  by (simp add: classify_def power_line_id power_line_field power_line_content
      power_line_convert)

lemma power_line_decode:
  "decode le lg ''1-0:21.7.0(00.424*kW)'' st =
     Continue (setitem ''power_delivered_w'' (VFloat (Fin 424)) st)"
  by (simp add: decode_def power_line_classify power_line_scaled store_def)

lemma map_of_setitem:
  "map_of (telegram_info (setitem k v st)) k = Some v"
  by (simp add: setitem_def update_conv')

text \<open>
  C6. In the body of a telegram (the start marker has been seen), the line
  \<^verbatim>\<open>1-0:21.7.0(00.424*kW)\<close>, with whatever white space or line end around it, goes on to
  the next line with \<^verbatim>\<open>telegram_info['power_delivered_w'] = 424.0\<close>: the text \<^verbatim>\<open>00.424\<close>
  in the parentheses is read as the float nearest to 0.424, the unit is skipped, and the
  product with 1000 is the float 424 exactly.
\<close>

theorem power_delivered_w_424:
  assumes "\<not> awaiting_start st" and "strip raw = ''1-0:21.7.0(00.424*kW)''"
  shows "\<exists>st'. body le lg st raw = Continue st'
           \<and> map_of (telegram_info st') ''power_delivered_w'' = Some (VFloat (Fin 424))
           \<and> telegram_info st' =
               AList.update ''power_delivered_w'' (VFloat (Fin 424)) (telegram_info st)
           \<and> float_str ''00.424'' = Inr (Fin (7638104968020361 / 18014398509481984))
           \<and> float_mul (Fin 1000) (Fin (7638104968020361 / 18014398509481984)) = Fin 424"
proof -
  let ?st1 = "st\<lparr>t_content := t_content st @ [''1-0:21.7.0(00.424*kW)'']\<rparr>"
  have "body le lg st raw = Continue (setitem ''power_delivered_w'' (VFloat (Fin 424)) ?st1)"
    using assms by (simp add: body_def startswith_def power_line_decode)
  moreover have "telegram_info (setitem ''power_delivered_w'' (VFloat (Fin 424)) ?st1) =
      AList.update ''power_delivered_w'' (VFloat (Fin 424)) (telegram_info st)"
    by (simp add: setitem_def)
  moreover have "float_str ''00.424'' = Inr (Fin (7638104968020361 / 18014398509481984))"
    by (simp add: eval_float)
  ultimately show ?thesis
    using map_of_setitem [of "''power_delivered_w''" "VFloat (Fin 424)" ?st1] power_line_scaled
    by simp
qed

theorem power_delivered_w_424_witness:
  "\<exists>st'. body None None (initial\<lparr>awaiting_start := False\<rparr>)
            (''1-0:21.7.0(00.424*kW)'' @ [CHR 0x0D, CHR 0x0A]) = Continue st'
         \<and> telegram_info st' = [(''power_delivered_w'', VFloat (Fin 424))]"
proof -
  have a: "\<not> awaiting_start (initial\<lparr>awaiting_start := False\<rparr>)"
    by simp
  have b: "strip (''1-0:21.7.0(00.424*kW)'' @ [CHR 0x0D, CHR 0x0A]) = ''1-0:21.7.0(00.424*kW)''"
    by (simp add: strip_def isspace_def)
  show ?thesis
    using power_delivered_w_424 [OF a b, of None None] by (auto simp add: initial_def)
qed

end
